theory Spec2Isabelle
  imports Complex_Main "HOL-Library.Multiset" "HOL-Library.Sublist"
begin

section \<open>The movie-ratings pipeline: data model\<close>

text \<open>
  The repository holds three Python files over pandas data frames:
  \<^verbatim>\<open>src/filters.py\<close> (two filters), \<^verbatim>\<open>src/utils/utils.py\<close> (the same two filters,
  the tag lookup, the aggregation, the plots and the orchestrator) and
  \<^verbatim>\<open>src/utils/inisight.py\<close> (a second copy of the orchestrator, importing its helpers from
  \<^verbatim>\<open>utils\<close>).

  A data frame is a list of rows, in row order; a row is a record of the columns the code
  reads. Row labels (the pandas index) are not modelled: no function below reads them.
  Every table carries the join key \<open>movieId\<close>, which is the common base of the row types.
  Ratings are floats in the source; here they are reals, so rounding is abstracted away.
  A \<open>datetime\<close> is a point on a linear time axis, here an integer number of seconds.
  The \<open>genres\<close> column holds a list of strings per movie in the catalog and, after
  \<^verbatim>\<open>explode\<close>, one scalar per row (\<open>None\<close> is pandas' NaN), hence the type parameter.
\<close>

datatype py_error = TypeError | ValueError | PatternNotModelled

record keyed =
  movieId :: int

record rating_row = keyed +
  userId :: int
  rating :: real
  datetime_rating :: int

record tag_row = keyed +
  tag :: string

record 'g movie_row = keyed +
  title :: string
  movie_year :: int
  genres :: 'g

text \<open>The columns that \<^verbatim>\<open>aggregate_data\<close> adds, one merge or assignment at a time.\<close>

record 'g movie_views = "'g movie_row" +
  total_views :: nat

record 'g movie_stats = "'g movie_views" +
  average_rating :: real

record 'g summary_row = "'g movie_stats" +
  tags :: "string list"


section \<open>Library operations the code calls\<close>

subsection \<open>\<^verbatim>\<open>sort_values(by=..., ascending=False)\<close>\<close>

text \<open>
  Both calls of \<^verbatim>\<open>sort_values\<close> in the source leave \<^verbatim>\<open>kind\<close> at its default
  (\<^verbatim>\<open>'quicksort'\<close>), for which pandas promises a descending rearrangement of the rows and
  nothing about the order of rows with equal keys. The sort is therefore a parameter
  \<open>srt\<close> of the functions that call it; \<open>sorts_descending\<close> is what pandas promises of it
  and \<open>keeps_ties\<close> is the extra property of a stable sort.
\<close>

definition sorts_descending :: "(('a \<Rightarrow> 'k::linorder) \<Rightarrow> 'a list \<Rightarrow> 'a list) \<Rightarrow> bool" where
  "sorts_descending srt \<longleftrightarrow>
     (\<forall>key df. mset (srt key df) = mset df \<and> sorted_wrt (\<lambda>a b. key b \<le> key a) (srt key df))"

definition keeps_ties :: "(('a \<Rightarrow> 'k::linorder) \<Rightarrow> 'a list \<Rightarrow> 'a list) \<Rightarrow> bool" where
  "keeps_ties srt \<longleftrightarrow>
     (\<forall>key df k. filter (\<lambda>r. key r = k) (srt key df) = filter (\<lambda>r. key r = k) df)"

text \<open>
  Two sorts that meet the promise: the stable one (what \<^verbatim>\<open>kind='stable'\<close> gives: reverse,
  sort ascending, reverse), and one that returns equal keys last-first.
\<close>

definition stable_sort_desc :: "('a \<Rightarrow> 'k::linorder) \<Rightarrow> 'a list \<Rightarrow> 'a list" where
  "stable_sort_desc key df = rev (sort_key key (rev df))"

definition flipping_sort_desc :: "('a \<Rightarrow> 'k::linorder) \<Rightarrow> 'a list \<Rightarrow> 'a list" where
  "flipping_sort_desc key df = rev (sort_key key df)"

subsection \<open>\<^verbatim>\<open>DataFrame.head\<close>, \<^verbatim>\<open>Series.apply\<close>, \<^verbatim>\<open>str.join\<close>\<close>

text \<open>
  \<^verbatim>\<open>head(n)\<close> returns the first \<open>n\<close> rows, and for a negative \<open>n\<close> all rows but the
  last \<open>|n|\<close>.
\<close>

definition head :: "int \<Rightarrow> 'a list \<Rightarrow> 'a list" where
  "head n df = (if 0 \<le> n then take (nat n) df else take (length df - nat (- n)) df)"

text \<open>
  \<^verbatim>\<open>Series.apply(f)\<close> calls \<open>f\<close> on the values in row order; the first exception
  propagates; on an empty series \<open>f\<close> is not called at all.
\<close>

fun series_apply :: "('a \<Rightarrow> py_error + 'b) \<Rightarrow> 'a list \<Rightarrow> py_error + 'b list" where
  "series_apply f [] = Inr []"
| "series_apply f (x # xs) =
     (case f x of
        Inl e \<Rightarrow> Inl e
      | Inr y \<Rightarrow> (case series_apply f xs of Inl e \<Rightarrow> Inl e | Inr ys \<Rightarrow> Inr (y # ys)))"

fun join :: "string \<Rightarrow> string list \<Rightarrow> string" where
  "join sep [] = []"
| "join sep [x] = x"
| "join sep (x # y # ys) = x @ sep @ join sep (y # ys)"

subsection \<open>Calls that leave a required parameter unbound\<close>

text \<open>
  Python binds the arguments of a call to the parameters before the body runs. Calling a
  function of two required positional parameters with one argument raises \<^verbatim>\<open>TypeError\<close>,
  whatever the argument is: neither the body nor the argument's columns are looked at.
\<close>

definition call_one_of_two :: "('a \<Rightarrow> 'b \<Rightarrow> py_error + 'c) \<Rightarrow> 'd \<Rightarrow> py_error + 'c" where
  "call_one_of_two f x = Inl TypeError"

subsection \<open>\<^verbatim>\<open>explode\<close>, \<^verbatim>\<open>str.contains\<close> and boolean masks\<close>

text \<open>
  \<^verbatim>\<open>explode("genres")\<close> gives one row per list element, in order, the other columns
  repeated; an empty list gives one row whose genre is NaN.
\<close>

definition with_genre :: "'g movie_row \<Rightarrow> 'h \<Rightarrow> 'h movie_row" where
  "with_genre m g = \<lparr>movieId = movieId m, title = title m, movie_year = movie_year m, genres = g\<rparr>"

definition explode :: "string list movie_row list \<Rightarrow> string option movie_row list" where
  "explode df =
     concat (map (\<lambda>m. case genres m of
                         [] \<Rightarrow> [with_genre m None]
                       | g # gs \<Rightarrow> map (\<lambda>x. with_genre m (Some x)) (g # gs)) df)"

text \<open>
  \<^verbatim>\<open>Series.str.contains(pat)\<close> has \<^verbatim>\<open>regex=True\<close> by default: it compiles \<open>pat\<close> as a
  regular expression once and keeps the values where \<^verbatim>\<open>re.search\<close> finds a match; a NaN
  value gives NaN. The regular expressions modelled are those built from ordinary
  characters and the wildcard \<open>.\<close> (any character but a newline); any other pattern is
  reported as \<open>PatternNotModelled\<close>.
\<close>

definition regex_special :: "char list" where
  "regex_special =
     [CHR ''.'', CHR ''^'', CHR ''$'', CHR ''*'', CHR ''+'', CHR ''?'', CHR ''{'', CHR ''}'',
      CHR ''['', CHR '']'', CHR 0x5C, CHR ''|'', CHR ''('', CHR '')'']"

fun match_here :: "string \<Rightarrow> string \<Rightarrow> bool" where
  "match_here [] s = True"
| "match_here (p # ps) [] = False"
| "match_here (p # ps) (c # cs) =
     ((if p = CHR ''.'' then c \<noteq> CHR 0x0A else p = c) \<and> match_here ps cs)"

fun re_search :: "string \<Rightarrow> string \<Rightarrow> bool" where
  "re_search pat [] = match_here pat []"
| "re_search pat (c # cs) = (match_here pat (c # cs) \<or> re_search pat cs)"

definition re_compile :: "string \<Rightarrow> py_error + (string \<Rightarrow> bool)" where
  "re_compile pat =
     (if list_all (\<lambda>c. c = CHR ''.'' \<or> c \<notin> set regex_special) pat
      then Inr (re_search pat) else Inl PatternNotModelled)"

definition str_contains :: "string \<Rightarrow> string option list \<Rightarrow> py_error + bool option list" where
  "str_contains pat col =
     (case re_compile pat of
        Inl e \<Rightarrow> Inl e
      | Inr found \<Rightarrow> Inr (map (map_option found) col))"

text \<open>
  \<^verbatim>\<open>df[mask]\<close> keeps the rows whose mask value is True; a mask that holds a NaN raises
  \<^verbatim>\<open>ValueError\<close> (cannot mask with non-boolean array containing NA / NaN values).
\<close>

definition getitem_mask :: "'a list \<Rightarrow> bool option list \<Rightarrow> py_error + 'a list" where
  "getitem_mask df bmask =
     (if list_ex (\<lambda>b. b = None) bmask then Inl ValueError
      else Inr (map fst (filter (\<lambda>(r, b). b = Some True) (zip df bmask))))"


section \<open>The filters\<close>

text \<open>
  \<^verbatim>\<open>filter_time_interval\<close> and \<^verbatim>\<open>filter_production_date\<close> are defined twice, with the
  same text, in \<^verbatim>\<open>src/utils/utils.py\<close> and in \<^verbatim>\<open>src/filters.py\<close>; the copies of
  \<^verbatim>\<open>filters.py\<close> carry the prefix \<open>filters_\<close>.
\<close>

definition filter_time_interval ::
  "((rating_row \<Rightarrow> int) \<Rightarrow> rating_row list \<Rightarrow> rating_row list) \<Rightarrow>
   rating_row list \<Rightarrow> int \<Rightarrow> int \<Rightarrow> rating_row list" where
  "filter_time_interval srt df start_date end_date =
     srt datetime_rating
       (filter (\<lambda>r. datetime_rating r \<ge> start_date \<and> datetime_rating r \<le> end_date) df)"

definition filters_filter_time_interval ::
  "((rating_row \<Rightarrow> int) \<Rightarrow> rating_row list \<Rightarrow> rating_row list) \<Rightarrow>
   rating_row list \<Rightarrow> int \<Rightarrow> int \<Rightarrow> rating_row list" where
  "filters_filter_time_interval srt df start_date end_date =
     srt datetime_rating
       (filter (\<lambda>r. datetime_rating r \<ge> start_date \<and> datetime_rating r \<le> end_date) df)"

definition filter_production_date :: "'g movie_row list \<Rightarrow> int \<Rightarrow> int \<Rightarrow> 'g movie_row list" where
  "filter_production_date df prod_start prod_end =
     filter (\<lambda>m. movie_year m \<ge> prod_start \<and> movie_year m \<le> prod_end) df"

definition filters_filter_production_date ::
  "'g movie_row list \<Rightarrow> int \<Rightarrow> int \<Rightarrow> 'g movie_row list" where
  "filters_filter_production_date df prod_start prod_end =
     filter (\<lambda>m. movie_year m \<ge> prod_start \<and> movie_year m \<le> prod_end) df"


section \<open>Aggregation\<close>

definition get_tags_per_movieId :: "int \<Rightarrow> tag_row list \<Rightarrow> string list" where
  "get_tags_per_movieId mid tags_df = map tag (filter (\<lambda>t. movieId t = mid) tags_df)"

text \<open>
  \<^verbatim>\<open>df.groupby("movieId")\<close>: one group per distinct key, keys ascending, each group
  holding its rows in row order.
\<close>

definition groupby_movieId :: "rating_row list \<Rightarrow> (int \<times> rating_row list) list" where
  "groupby_movieId df =
     map (\<lambda>k. (k, filter (\<lambda>r. movieId r = k) df)) (sort (remdups (map movieId df)))"

text \<open>
  The count and the mean of each group. The source's mean is a mean of floats; the mean
  here is the exact quotient of the sum by the count.
\<close>

definition count_views :: "rating_row list \<Rightarrow> (int \<times> nat) list" where
  "count_views df = map (\<lambda>(k, grp). (k, length grp)) (groupby_movieId df)"

definition rating_means :: "rating_row list \<Rightarrow> (int \<times> real) list" where
  "rating_means df =
     map (\<lambda>(k, grp). (k, sum_list (map rating grp) / real (length grp))) (groupby_movieId df)"

text \<open>
  \<^verbatim>\<open>pd.merge(left, right, on="movieId")\<close> is an inner join that keeps the order of the
  left rows: each left row is paired with every right row of the same key.
\<close>

definition merge :: "'a list \<Rightarrow> (int \<times> 'v) list \<Rightarrow> ('a \<Rightarrow> int) \<Rightarrow> ('a \<Rightarrow> 'v \<Rightarrow> 'b) \<Rightarrow> 'b list" where
  "merge left right on_key add_column =
     concat (map (\<lambda>l. map (\<lambda>(k, v). add_column l v) (filter (\<lambda>(k, v). k = on_key l) right)) left)"

definition add_total_views :: "'g movie_row \<Rightarrow> nat \<Rightarrow> 'g movie_views" where
  "add_total_views m n =
     \<lparr>movieId = movieId m, title = title m, movie_year = movie_year m, genres = genres m,
      total_views = n\<rparr>"

definition add_average_rating :: "'g movie_views \<Rightarrow> real \<Rightarrow> 'g movie_stats" where
  "add_average_rating m a =
     \<lparr>movieId = movieId m, title = title m, movie_year = movie_year m, genres = genres m,
      total_views = total_views m, average_rating = a\<rparr>"

definition add_tags :: "'g movie_stats \<Rightarrow> string list \<Rightarrow> 'g summary_row" where
  "add_tags m ts =
     \<lparr>movieId = movieId m, title = title m, movie_year = movie_year m, genres = genres m,
      total_views = total_views m, average_rating = average_rating m, tags = ts\<rparr>"

text \<open>The value of \<^verbatim>\<open>movies_df_copy\<close> after the two merges of \<^verbatim>\<open>aggregate_data\<close>.\<close>

definition merged_stats :: "rating_row list \<Rightarrow> 'g movie_row list \<Rightarrow> 'g movie_stats list" where
  "merged_stats df movies_df =
     merge (merge movies_df (count_views df) movieId add_total_views)
           (rating_means df) movieId add_average_rating"

text \<open>
  The last statement of \<^verbatim>\<open>aggregate_data\<close> applies
  \<^verbatim>\<open>lambda x: get_tags_per_movieId(x)\<close> to the \<open>movieId\<close> column: one argument for the two
  required parameters \<open>movieId\<close> and \<open>tags_df\<close>.
\<close>

definition aggregate_data ::
  "rating_row list \<Rightarrow> 'g movie_row list \<Rightarrow> py_error + 'g summary_row list" where
  "aggregate_data df movies_df =
     (let movies_df_copy = merged_stats df movies_df in
      case series_apply
             (\<lambda>x. call_one_of_two (\<lambda>mid tags_df. Inr (get_tags_per_movieId mid tags_df)) x)
             (map movieId movies_df_copy) of
        Inl e \<Rightarrow> Inl e
      | Inr ts \<Rightarrow> Inr (map (\<lambda>(m, t). add_tags m t) (zip movies_df_copy ts)))"


section \<open>Plots\<close>

text \<open>
  \<^verbatim>\<open>generate_plots\<close> returns nothing and draws three panels. The model returns what is
  drawn: the rows of the bar chart in bar order, the normalized ratings that pick the bar
  colours, and the text handed to the word cloud. The rendering itself (matplotlib,
  WordCloud) is outside the model.
\<close>

record 'g plots =
  bars :: "'g summary_row list"
  normalized_ratings :: "real list"
  wordcloud_text :: string

definition generate_plots ::
  "(('g summary_row \<Rightarrow> nat) \<Rightarrow> 'g summary_row list \<Rightarrow> 'g summary_row list) \<Rightarrow>
   'g summary_row list \<Rightarrow> string \<Rightarrow> int \<Rightarrow> int \<Rightarrow> 'g plots" where
  "generate_plots srt movies_df genre decade top_n =
     (let movies_df = head top_n (srt total_views movies_df);
          ratings = map average_rating movies_df;
          normalized_ratings = map (\<lambda>r. (r - 1) / 4) ratings
      in \<lparr>bars = movies_df, normalized_ratings = normalized_ratings,
          wordcloud_text = join '' '' (concat (map tags movies_df))\<rparr>)"


section \<open>The orchestrator\<close>

text \<open>
  The value of \<^verbatim>\<open>filter_df\<close> after the first four statements of
  \<^verbatim>\<open>find_closest_match_ut\<close>: the decade, the production-date filter, the explode and the
  genre mask. Python's \<^verbatim>\<open>//\<close> on integers is floor division, as \<open>div\<close> on \<open>int\<close>.
\<close>

definition filter_df_of ::
  "string \<Rightarrow> int \<Rightarrow> string list movie_row list \<Rightarrow> py_error + string option movie_row list" where
  "filter_df_of genre prod_year dataset =
     (let decade = prod_year div 10 * 10;
          filter_df = filter_production_date dataset decade (decade + 9);
          filter_df = explode filter_df
      in case str_contains genre (map genres filter_df) of
           Inl e \<Rightarrow> Inl e
         | Inr bmask \<Rightarrow> getitem_mask filter_df bmask)"

text \<open>
  \<^verbatim>\<open>find_closest_match_ut\<close> of \<^verbatim>\<open>src/utils/utils.py\<close>. It calls
  \<^verbatim>\<open>aggregate_data(filter_df)\<close>: one argument for the two required parameters \<open>df\<close> and
  \<open>movies_df\<close>. \<^verbatim>\<open>generate_plots\<close> is called with its default \<open>top = 20\<close>.
\<close>

definition find_closest_match_ut ::
  "((string option summary_row \<Rightarrow> nat) \<Rightarrow> string option summary_row list
      \<Rightarrow> string option summary_row list) \<Rightarrow>
   string \<Rightarrow> int \<Rightarrow> string list movie_row list \<Rightarrow>
   py_error + (string option movie_row list \<times> string option summary_row list)" where
  "find_closest_match_ut srt genre prod_year dataset =
     (let decade = prod_year div 10 * 10 in
      case filter_df_of genre prod_year dataset of
        Inl e \<Rightarrow> Inl e
      | Inr filter_df \<Rightarrow>
          (case call_one_of_two aggregate_data filter_df of
             Inl e \<Rightarrow> Inl e
           | Inr aggregate_df \<Rightarrow>
               (let drawn = generate_plots srt aggregate_df genre decade 20
                in Inr (filter_df, aggregate_df))))"

text \<open>
  \<^verbatim>\<open>find_closest_match_ut\<close> of \<^verbatim>\<open>src/utils/inisight.py\<close>: the same statements, with
  \<^verbatim>\<open>filter_production_date\<close>, \<^verbatim>\<open>aggregate_data\<close> and \<^verbatim>\<open>generate_plots\<close> imported from
  \<^verbatim>\<open>utils\<close>.
\<close>

definition inisight_find_closest_match_ut ::
  "((string option summary_row \<Rightarrow> nat) \<Rightarrow> string option summary_row list
      \<Rightarrow> string option summary_row list) \<Rightarrow>
   string \<Rightarrow> int \<Rightarrow> string list movie_row list \<Rightarrow>
   py_error + (string option movie_row list \<times> string option summary_row list)" where
  "inisight_find_closest_match_ut srt genre prod_year dataset =
     (let decade = prod_year div 10 * 10 in
      case filter_df_of genre prod_year dataset of
        Inl e \<Rightarrow> Inl e
      | Inr filter_df \<Rightarrow>
          (case call_one_of_two aggregate_data filter_df of
             Inl e \<Rightarrow> Inl e
           | Inr aggregate_df \<Rightarrow>
               (let drawn = generate_plots srt aggregate_df genre decade 20
                in Inr (filter_df, aggregate_df))))"


section \<open>Example data\<close>

text \<open>
  The data of the specification's end-to-end example: users \<open>u1 = 1\<close>, \<open>u2 = 2\<close> and
  rating times \<open>t1 = 100\<close>, \<open>t2 = 200\<close>, \<open>t3 = 300\<close>.
\<close>

definition ex_ratings :: "rating_row list" where
  "ex_ratings =
     [\<lparr>movieId = 1, userId = 1, rating = 4, datetime_rating = 100\<rparr>,
      \<lparr>movieId = 1, userId = 1, rating = 5, datetime_rating = 200\<rparr>,
      \<lparr>movieId = 2, userId = 2, rating = 3, datetime_rating = 300\<rparr>]"

definition ex_movies :: "string list movie_row list" where
  "ex_movies =
     [\<lparr>movieId = 1, title = ''A'', movie_year = 1990, genres = [''Comedy'']\<rparr>,
      \<lparr>movieId = 2, title = ''B'', movie_year = 1991, genres = [''Drama'']\<rparr>]"

definition ex_tags :: "tag_row list" where
  "ex_tags = [\<lparr>movieId = 1, tag = ''funny''\<rparr>]"


text \<open>An aggregate summary of three comedies, two of them with the same number of views.\<close>

definition ex_summary :: "string list summary_row list" where
  "ex_summary =
     [\<lparr>movieId = 1, title = ''X'', movie_year = 1990, genres = [''Comedy''],
       total_views = 5, average_rating = 0.5, tags = [''funny'']\<rparr>,
      \<lparr>movieId = 2, title = ''Y'', movie_year = 1991, genres = [''Comedy''],
       total_views = 7, average_rating = 4.5, tags = []\<rparr>,
      \<lparr>movieId = 3, title = ''Z'', movie_year = 1992, genres = [''Comedy''],
       total_views = 5, average_rating = 3, tags = [''dark'', ''slow'']\<rparr>]"


text \<open>An aggregate summary of four comedies with views 3, 3, 5 and 5.\<close>

definition ex_ties :: "string list summary_row list" where
  "ex_ties =
     [\<lparr>movieId = 1, title = ''P'', movie_year = 1990, genres = [''Comedy''],
       total_views = 3, average_rating = 3, tags = []\<rparr>,
      \<lparr>movieId = 2, title = ''Q'', movie_year = 1991, genres = [''Comedy''],
       total_views = 3, average_rating = 4, tags = []\<rparr>,
      \<lparr>movieId = 3, title = ''R'', movie_year = 1992, genres = [''Comedy''],
       total_views = 5, average_rating = 2, tags = []\<rparr>,
      \<lparr>movieId = 4, title = ''S'', movie_year = 1993, genres = [''Comedy''],
       total_views = 5, average_rating = 5, tags = []\<rparr>]"

text \<open>
  A catalog with a two-genre movie of the 1990s and two movies of the 2000s, one of them
  without genres.
\<close>

definition ex_movies_mixed :: "string list movie_row list" where
  "ex_movies_mixed =
     [\<lparr>movieId = 3, title = ''C'', movie_year = 1999, genres = [''Drama'', ''Romantic Comedy'']\<rparr>,
      \<lparr>movieId = 4, title = ''D'', movie_year = 2000, genres = []\<rparr>,
      \<lparr>movieId = 5, title = ''E'', movie_year = 2001, genres = [''Comedy'']\<rparr>]"


section \<open>Facts about the sorts\<close>

lemma sorted_desc_rev_sort_key:
  "sorted_wrt (\<lambda>a b. key b \<le> key a) (rev (sort_key key xs))"
proof -
  have "sorted (map key (sort_key key xs))" by simp
  then have "sorted_wrt (\<lambda>a b. key a \<le> key b) (sort_key key xs)"
    by (simp add: sorted_wrt_map)
  then show ?thesis by (simp add: sorted_wrt_rev)
qed

lemma sorts_descending_stable: "sorts_descending stable_sort_desc"
  unfolding sorts_descending_def stable_sort_desc_def
  by (simp add: sorted_desc_rev_sort_key)

lemma sorts_descending_flipping: "sorts_descending flipping_sort_desc"
  unfolding sorts_descending_def flipping_sort_desc_def
  by (simp add: sorted_desc_rev_sort_key)

lemma keeps_ties_stable: "keeps_ties stable_sort_desc"
  unfolding keeps_ties_def stable_sort_desc_def
  by (simp add: sort_key_stable flip: rev_filter)

text \<open>A descending sort that keeps ties is the stable sort: its result is determined.\<close>

lemma stable_sort_desc_unique:
  assumes "sorts_descending srt" and "keeps_ties srt"
  shows "srt key df = stable_sort_desc key df"
proof -
  let ?ys = "srt key df"
  have m: "mset (rev ?ys) = mset (rev df)"
    using assms(1) by (simp add: sorts_descending_def)
  have s: "sorted (map key (rev ?ys))"
  proof -
    have "sorted_wrt (\<lambda>a b. key b \<le> key a) ?ys"
      using assms(1) by (simp add: sorts_descending_def)
    then have "sorted_wrt (\<lambda>a b. key a \<le> key b) (rev ?ys)"
      by (simp add: sorted_wrt_rev)
    then show ?thesis by (simp add: sorted_wrt_map)
  qed
  have f: "filter (\<lambda>x. key k = key x) (rev ?ys) = filter (\<lambda>x. key k = key x) (rev df)" for k
  proof -
    have "filter (\<lambda>x. key x = key k) ?ys = filter (\<lambda>x. key x = key k) df"
      using assms(2) by (simp add: keeps_ties_def)
    then have "rev (filter (\<lambda>x. key x = key k) ?ys) = rev (filter (\<lambda>x. key x = key k) df)"
      by simp
    then show ?thesis by (simp add: rev_filter eq_commute)
  qed
  have "sort_key key (rev df) = rev ?ys"
    by (rule properties_for_sort_key [OF m _ s]) (rule f)
  then show ?thesis by (simp add: stable_sort_desc_def)
qed


section \<open>The filters: closed intervals, order, idempotence\<close>

lemma filters_copy_time: "filters_filter_time_interval = filter_time_interval"
  by (intro ext) (simp add: filters_filter_time_interval_def filter_time_interval_def)

lemma filters_copy_date: "filters_filter_production_date = filter_production_date"
  by (intro ext) (simp add: filters_filter_production_date_def filter_production_date_def)

text \<open>
  C6: for every ratings table and every interval, \<open>filter_time_interval\<close> returns exactly
  the rating records whose \<open>datetime_rating\<close> lies in the closed interval
  \<open>[start, end]\<close> (each as often as the table holds it), sorted descending by
  \<open>datetime_rating\<close>, and returns the empty table, with no error, when no record matches.
  This holds for any sort that does what pandas promises, for both copies of the function,
  and also without the claim's precondition \<open>start \<le> end\<close>.
\<close>

theorem filter_time_interval_closed_sorted:
  assumes "sorts_descending srt"
  shows "mset (filter_time_interval srt df s e)
           = filter_mset (\<lambda>r. s \<le> datetime_rating r \<and> datetime_rating r \<le> e) (mset df)
       \<and> sorted_wrt (\<lambda>a b. datetime_rating b \<le> datetime_rating a) (filter_time_interval srt df s e)
       \<and> ((\<forall>r \<in> set df. \<not> (s \<le> datetime_rating r \<and> datetime_rating r \<le> e))
            \<longrightarrow> filter_time_interval srt df s e = [])
       \<and> filters_filter_time_interval srt df s e = filter_time_interval srt df s e"
proof -
  let ?P = "\<lambda>r. s \<le> datetime_rating r \<and> datetime_rating r \<le> e"
  have m: "mset (filter_time_interval srt df s e) = mset (filter ?P df)"
    using assms by (simp add: filter_time_interval_def sorts_descending_def)
  have srt: "sorted_wrt (\<lambda>a b. datetime_rating b \<le> datetime_rating a)
               (filter_time_interval srt df s e)"
    using assms by (simp add: filter_time_interval_def sorts_descending_def)
  have emp: "filter_time_interval srt df s e = []"
    if "\<forall>r \<in> set df. \<not> ?P r"
  proof -
    from that have "filter ?P df = []" by (simp add: filter_empty_conv)
    with m show ?thesis by simp
  qed
  from m srt emp show ?thesis by (simp add: filters_copy_time)
qed

theorem filter_time_interval_closed_sorted_witness:
  "filter_time_interval stable_sort_desc ex_ratings 150 300 = [ex_ratings ! 2, ex_ratings ! 1]
   \<and> mset (filter_time_interval stable_sort_desc ex_ratings 150 300)
       = {#ex_ratings ! 1, ex_ratings ! 2#}
   \<and> filter_time_interval stable_sort_desc ex_ratings 400 500 = []"
  using filter_time_interval_closed_sorted [OF sorts_descending_stable, of ex_ratings 150 300]
    filter_time_interval_closed_sorted [OF sorts_descending_stable, of ex_ratings 400 500]
  by (simp add: ex_ratings_def filter_time_interval_def stable_sort_desc_def)

text \<open>
  C7: for every movie catalog and integers \<open>p1\<close>, \<open>p2\<close>, \<open>filter_production_date\<close>
  returns exactly the movie records with \<open>p1 \<le> movie_year \<le> p2\<close> (each as often as the
  catalog holds it), in the order of the input (the result is a subsequence of it); when
  \<open>p1 > p2\<close> the result is empty. Both copies of the function agree.
\<close>

theorem filter_production_date_exact:
  "mset (filter_production_date df p1 p2)
     = filter_mset (\<lambda>m. p1 \<le> movie_year m \<and> movie_year m \<le> p2) (mset df)
   \<and> subseq (filter_production_date df p1 p2) df
   \<and> (p2 < p1 \<longrightarrow> filter_production_date df p1 p2 = [])
   \<and> filters_filter_production_date df p1 p2 = filter_production_date df p1 p2"
  by (auto simp: filter_production_date_def filters_copy_date filter_empty_conv)

theorem filter_production_date_exact_witness:
  "filter_production_date ex_movies 1991 1999 = [ex_movies ! 1]
   \<and> (1990::int) < 1991 \<and> filter_production_date ex_movies 1991 1990 = []"
  using filter_production_date_exact [of ex_movies 1991 1990]
  by (simp add: ex_movies_def filter_production_date_def)

text \<open>
  C8: for every ratings table \<open>D\<close> and every interval \<open>[s, e]\<close>, filtering the result of
  \<open>filter_time_interval\<close> again with the same interval yields the same records: the same
  multiset, hence the same set. This holds for any sort that does what pandas promises,
  and with a sort that keeps ties the second pass returns the very same table.
\<close>

theorem filter_time_interval_idempotent:
  assumes "sorts_descending srt"
  shows "mset (filter_time_interval srt (filter_time_interval srt D s e) s e)
           = mset (filter_time_interval srt D s e)
       \<and> set (filter_time_interval srt (filter_time_interval srt D s e) s e)
           = set (filter_time_interval srt D s e)
       \<and> mset (filters_filter_time_interval srt (filters_filter_time_interval srt D s e) s e)
           = mset (filters_filter_time_interval srt D s e)
       \<and> (keeps_ties srt \<longrightarrow>
            filter_time_interval srt (filter_time_interval srt D s e) s e
              = filter_time_interval srt D s e)"
proof -
  let ?P = "\<lambda>r. s \<le> datetime_rating r \<and> datetime_rating r \<le> e"
  have once: "mset (filter_time_interval srt X s e) = filter_mset ?P (mset X)" for X
    using assms by (simp add: filter_time_interval_def sorts_descending_def)
  have same: "filter_time_interval srt (filter_time_interval srt D s e) s e
                = filter_time_interval srt D s e"
    if kt: "keeps_ties srt"
  proof -
    let ?L = "filter_time_interval srt D s e"
    have all: "\<forall>r \<in> set ?L. ?P r"
    proof -
      have "set_mset (mset ?L) = set_mset (filter_mset ?P (mset D))"
        by (simp only: once)
      then show ?thesis by auto
    qed
    then have keep: "filter ?P ?L = ?L"
      by (simp add: filter_id_conv)
    have "sorted_wrt (\<lambda>a b. datetime_rating b \<le> datetime_rating a) ?L"
      using assms by (simp add: filter_time_interval_def sorts_descending_def)
    then have "sorted (map datetime_rating (rev ?L))"
      by (simp add: sorted_wrt_map sorted_wrt_rev flip: rev_map)
    then have "sort_key datetime_rating (rev ?L) = rev ?L"
      by (rule sort_key_id_if_sorted)
    then have "stable_sort_desc datetime_rating ?L = ?L"
      by (simp add: stable_sort_desc_def)
    moreover have "filter_time_interval srt ?L s e = stable_sort_desc datetime_rating (filter ?P ?L)"
      unfolding filter_time_interval_def [of srt ?L]
      using assms kt by (rule stable_sort_desc_unique)
    ultimately show ?thesis by (simp only: keep)
  qed
  have m: "mset (filter_time_interval srt (filter_time_interval srt D s e) s e)
             = mset (filter_time_interval srt D s e)"
    by (simp add: once filter_filter_mset cong: rev_conj_cong)
  from m have "set (filter_time_interval srt (filter_time_interval srt D s e) s e)
             = set (filter_time_interval srt D s e)"
    by (rule mset_eq_setD)
  with m same show ?thesis by (simp add: filters_copy_time)
qed

theorem filter_time_interval_idempotent_witness:
  "filter_time_interval stable_sort_desc
       (filter_time_interval stable_sort_desc ex_ratings 150 300) 150 300
     = filter_time_interval stable_sort_desc ex_ratings 150 300
   \<and> set (filter_time_interval stable_sort_desc ex_ratings 150 300)
       = {ex_ratings ! 1, ex_ratings ! 2}"
proof -
  have kt: "keeps_ties (stable_sort_desc :: (rating_row \<Rightarrow> int) \<Rightarrow> _)"
    by (rule keeps_ties_stable)
  show ?thesis
    using filter_time_interval_idempotent [OF sorts_descending_stable, of ex_ratings 150 300] kt
    by (simp add: ex_ratings_def filter_time_interval_def stable_sort_desc_def insert_commute)
qed


section \<open>The plots: top-N selection and colour normalization\<close>

lemma bars_generate_plots:
  "bars (generate_plots srt df g d n) = head n (srt total_views df)"
  by (simp add: generate_plots_def Let_def)

lemma normalized_generate_plots:
  "normalized_ratings (generate_plots srt df g d n)
     = map (\<lambda>m. (average_rating m - 1) / 4) (head n (srt total_views df))"
  by (simp add: generate_plots_def Let_def comp_def)

text \<open>
  C9: for every selected movie, \<open>generate_plots\<close> computes the colour-mapping value from
  \<open>average_rating\<close> as \<open>(rating - 1) / 4\<close>, with no clamping: the normalized value is
  negative exactly when the rating is below 1.
\<close>

theorem generate_plots_normalized_unclamped:
  "normalized_ratings (generate_plots srt df g d n)
     = map (\<lambda>m. (average_rating m - 1) / 4) (bars (generate_plots srt df g d n))
   \<and> (\<forall>i < length (bars (generate_plots srt df g d n)).
        (normalized_ratings (generate_plots srt df g d n) ! i < 0)
          = (average_rating (bars (generate_plots srt df g d n) ! i) < 1))"
  by (simp add: bars_generate_plots normalized_generate_plots)

theorem generate_plots_normalized_unclamped_witness:
  "map title (bars (generate_plots stable_sort_desc ex_summary ''Comedy'' 1990 20)) = [''Y'', ''X'', ''Z'']
   \<and> normalized_ratings (generate_plots stable_sort_desc ex_summary ''Comedy'' 1990 20) = [7/8, -1/8, 1/2]
   \<and> average_rating (bars (generate_plots stable_sort_desc ex_summary ''Comedy'' 1990 20) ! 1) < 1
   \<and> normalized_ratings (generate_plots stable_sort_desc ex_summary ''Comedy'' 1990 20) ! 1 < 0"
  using generate_plots_normalized_unclamped [of stable_sort_desc ex_summary "''Comedy''" 1990 20]
  by (simp add: ex_summary_def generate_plots_def head_def stable_sort_desc_def)

lemma prefix_filter_take: "prefix (filter P (take n xs)) (filter P xs)"
proof -
  have "filter P xs = filter P (take n xs) @ filter P (drop n xs)"
    by (metis append_take_drop_id filter_append)
  then show ?thesis by (simp add: prefix_def)
qed

lemma sorted_wrt_take_drop_le:
  assumes "sorted_wrt R xs" "a \<in> set (take n xs)" "b \<in> set (drop n xs)"
  shows "R a b"
proof -
  have "sorted_wrt R (take n xs @ drop n xs)" using assms(1) by simp
  then show ?thesis using assms(2,3) unfolding sorted_wrt_append by blast
qed

lemma head_eq_take:
  "head n xs = take (if 0 \<le> n then nat n else length xs - nat (- n)) xs"
  by (simp add: head_def)

text \<open>
  C5, as amended: for every aggregate summary and every \<open>top\<close>, \<open>generate_plots\<close> selects
  movies of the summary, ordered by \<open>total_views\<close> descending, and no movie left out has
  more views than a selected one; for \<open>top \<ge> 0\<close> it selects exactly
  \<open>min top (number of available movies)\<close> of them, and for \<open>top < 0\<close> all but \<open>|top|\<close>.
  When the sort keeps rows of equal keys in input order, the selection is the head of the
  stable descending sort, so it is determined by the input order, and among movies with
  the same \<open>total_views\<close> the selected ones are the first of the input, in input order.
\<close>

theorem generate_plots_top_selection:
  assumes "sorts_descending srt"
  shows "(0 \<le> top_n \<longrightarrow>
            length (bars (generate_plots srt df g d top_n)) = min (nat top_n) (length df))
       \<and> (top_n < 0 \<longrightarrow>
            length (bars (generate_plots srt df g d top_n)) = length df - nat (- top_n))
       \<and> sorted_wrt (\<lambda>a b. total_views b \<le> total_views a) (bars (generate_plots srt df g d top_n))
       \<and> mset (bars (generate_plots srt df g d top_n)) \<subseteq># mset df
       \<and> (\<forall>a \<in> set (bars (generate_plots srt df g d top_n)).
            \<forall>b \<in># mset df - mset (bars (generate_plots srt df g d top_n)).
              total_views b \<le> total_views a)
       \<and> (keeps_ties srt \<longrightarrow>
            bars (generate_plots srt df g d top_n) = head top_n (stable_sort_desc total_views df)
            \<and> (0 \<le> top_n \<longrightarrow>
                 bars (generate_plots srt df g d top_n)
                   = take (nat top_n) (stable_sort_desc total_views df))
            \<and> (\<forall>k. prefix (filter (\<lambda>r. total_views r = k) (bars (generate_plots srt df g d top_n)))
                          (filter (\<lambda>r. total_views r = k) df)))"
proof -
  let ?S = "srt total_views df"
  let ?B = "bars (generate_plots srt df g d top_n)"
  define n where "n = (if 0 \<le> top_n then nat top_n else length ?S - nat (- top_n))"
  have B: "?B = take n ?S"
    by (simp add: bars_generate_plots head_eq_take n_def)
  have mS: "mset ?S = mset df" and sS: "sorted_wrt (\<lambda>a b. total_views b \<le> total_views a) ?S"
    using assms by (simp_all add: sorts_descending_def)
  have lenS: "length ?S = length df"
    using mS by (rule mset_eq_length)
  have c1: "length ?B = min (nat top_n) (length df)" if "0 \<le> top_n"
    using that by (simp add: B lenS n_def min.commute)
  have c1': "length ?B = length df - nat (- top_n)" if "top_n < 0"
    using that by (simp add: B lenS n_def)
  have c2: "sorted_wrt (\<lambda>a b. total_views b \<le> total_views a) ?B"
    unfolding B using sS by (rule sorted_wrt_take)
  have split: "mset df = mset ?B + mset (drop n ?S)"
    unfolding B by (metis mS append_take_drop_id mset_append)
  have c3: "mset ?B \<subseteq># mset df"
    by (simp add: split)
  have rest: "mset df - mset ?B = mset (drop n ?S)"
    by (simp add: split)
  have c4: "\<forall>a \<in> set ?B. \<forall>b \<in># mset df - mset ?B. total_views b \<le> total_views a"
    unfolding rest using sorted_wrt_take_drop_le [OF sS] by (auto simp: B)
  have c5: "?B = head top_n (stable_sort_desc total_views df)
            \<and> (0 \<le> top_n \<longrightarrow> ?B = take (nat top_n) (stable_sort_desc total_views df))
            \<and> (\<forall>k. prefix (filter (\<lambda>r. total_views r = k) ?B) (filter (\<lambda>r. total_views r = k) df))"
    if kt: "keeps_ties srt"
  proof -
    have S: "?S = stable_sort_desc total_views df"
      using assms kt by (rule stable_sort_desc_unique)
    then have e: "?B = head top_n (stable_sort_desc total_views df)"
      by (simp add: bars_generate_plots)
    then have e': "0 \<le> top_n \<longrightarrow> ?B = take (nat top_n) (stable_sort_desc total_views df)"
      by (simp add: head_def)
    have "prefix (filter (\<lambda>r. total_views r = k) ?B) (filter (\<lambda>r. total_views r = k) df)" for k
    proof -
      have "filter (\<lambda>r. total_views r = k) ?S = filter (\<lambda>r. total_views r = k) df"
        using kt by (simp add: keeps_ties_def)
      then show ?thesis
        unfolding B using prefix_filter_take [of "\<lambda>r. total_views r = k" n ?S] by simp
    qed
    with e e' show ?thesis by blast
  qed
  from c1 c1' c2 c3 c4 c5 show ?thesis by blast
qed

theorem generate_plots_top_selection_witness:
  "map title (bars (generate_plots stable_sort_desc ex_summary ''Comedy'' 1990 2)) = [''Y'', ''X'']
   \<and> length (bars (generate_plots stable_sort_desc ex_summary ''Comedy'' 1990 2)) = min 2 (length ex_summary)
   \<and> length (bars (generate_plots stable_sort_desc ex_summary ''Comedy'' 1990 20)) = min 20 (length ex_summary)
   \<and> map title (bars (generate_plots stable_sort_desc ex_summary ''Comedy'' 1990 (- 1))) = [''Y'', ''X'']
   \<and> length (bars (generate_plots stable_sort_desc ex_summary ''Comedy'' 1990 (- 1))) = length ex_summary - 1"
proof -
  have kt: "keeps_ties (stable_sort_desc :: (string list summary_row \<Rightarrow> nat) \<Rightarrow> _)"
    by (rule keeps_ties_stable)
  show ?thesis
    using generate_plots_top_selection [OF sorts_descending_stable, of 2 ex_summary "''Comedy''" 1990]
      generate_plots_top_selection [OF sorts_descending_stable, of 20 ex_summary "''Comedy''" 1990]
      generate_plots_top_selection [OF sorts_descending_stable, of "- 1" ex_summary "''Comedy''" 1990]
      kt
    by (simp add: ex_summary_def stable_sort_desc_def head_def)
qed

text \<open>
  C5 as stated fails on a summary whose views are 3, 3, 5 and 5. The call
  \<^verbatim>\<open>sort_values(by="total_views", ascending=False)\<close> leaves \<^verbatim>\<open>kind\<close> at
  \<^verbatim>\<open>'quicksort'\<close>, and on this summary pandas 2.x returns the movies in the order
  4, 3, 2, 1: equal keys come out last-first, as \<open>flipping_sort_desc\<close> computes, and not in
  input order. With \<open>top = -1\<close> on the same summary \<open>head\<close> drops the last row and three
  movies are drawn, where \<open>min (-1) 4\<close> is no number of movies.
\<close>

theorem generate_plots_top_counterexample:
  "map movieId ex_ties = [1, 2, 3, 4]
   \<and> map total_views ex_ties = [3, 3, 5, 5]
   \<and> map movieId (bars (generate_plots flipping_sort_desc ex_ties ''Comedy'' 1990 20)) = [4, 3, 2, 1]
   \<and> map movieId (bars (generate_plots flipping_sort_desc ex_ties ''Comedy'' 1990 (- 1))) = [4, 3, 2]
   \<and> min (- 1) (int (length ex_ties)) = - 1"
  by (simp add: ex_ties_def generate_plots_def head_def flipping_sort_desc_def)


section \<open>Aggregation: counts, means, inner join, tags\<close>

lemma filter_keyed_distinct:
  "distinct ks \<Longrightarrow>
   filter (\<lambda>(k, v). k = x) (map (\<lambda>k. (k, f k)) ks) = (if x \<in> set ks then [(x, f x)] else [])"
  by (induction ks) auto

lemma merge_keyed_distinct:
  assumes "distinct ks"
  shows "merge left (map (\<lambda>k. (k, f k)) ks) on_key add_column
           = map (\<lambda>l. add_column l (f (on_key l))) (filter (\<lambda>l. on_key l \<in> set ks) left)"
proof (induction left)
  case Nil
  then show ?case by (simp add: merge_def)
next
  case (Cons l ls)
  then show ?case
    using assms by (simp add: merge_def filter_keyed_distinct)
qed

lemma group_keys:
  "distinct (sort (remdups (map movieId df)))"
  "set (sort (remdups (map movieId df))) = movieId ` set df"
  by simp_all

lemma count_views_eq:
  "count_views df
     = map (\<lambda>k. (k, length (filter (\<lambda>r. movieId r = k) df))) (sort (remdups (map movieId df)))"
  by (simp add: count_views_def groupby_movieId_def comp_def)

lemma rating_means_eq:
  "rating_means df
     = map (\<lambda>k. (k, sum_list (map rating (filter (\<lambda>r. movieId r = k) df))
                    / real (length (filter (\<lambda>r. movieId r = k) df))))
         (sort (remdups (map movieId df)))"
  by (simp add: rating_means_def groupby_movieId_def comp_def)

lemma movieId_add_total_views: "movieId (add_total_views m n) = movieId m"
  by (simp add: add_total_views_def)

text \<open>The two merges in closed form.\<close>

lemma merged_stats_eq:
  "merged_stats df movies_df
     = map (\<lambda>m. add_average_rating
                  (add_total_views m (length (filter (\<lambda>r. movieId r = movieId m) df)))
                  (sum_list (map rating (filter (\<lambda>r. movieId r = movieId m) df))
                     / real (length (filter (\<lambda>r. movieId r = movieId m) df))))
         (filter (\<lambda>m. movieId m \<in> movieId ` set df) movies_df)"
  unfolding merged_stats_def count_views_eq rating_means_eq
  by (simp add: merge_keyed_distinct group_keys filter_map comp_def movieId_add_total_views
        del: set_sort set_remdups)

text \<open>
  The tag step raises on the first row, so \<open>aggregate_data\<close> returns only when the two
  merges leave no row at all.
\<close>

lemma series_apply_unbound:
  "series_apply (\<lambda>x. call_one_of_two f x) xs = (if xs = [] then Inr [] else Inl TypeError)"
  by (cases xs) (simp_all add: call_one_of_two_def)

lemma aggregate_data_eq:
  "aggregate_data df movies_df
     = (if merged_stats df movies_df = [] then Inr [] else Inl TypeError)"
  by (simp add: aggregate_data_def Let_def series_apply_unbound)

text \<open>
  The frame built by the two merges is right: each of its movies has \<open>total_views\<close> equal
  to the number of rating records with its \<open>movieId\<close> and \<open>average_rating\<close> equal to their
  mean, and its movies are the catalog's movies whose \<open>movieId\<close> occurs in the ratings, in
  catalog order. The frame is a local of \<open>aggregate_data\<close>; whenever it has a row, the tag
  step raises and nothing is returned.
\<close>

lemma merged_stats_counts_means:
  "(\<forall>row \<in> set (merged_stats df movies_df).
       total_views row = length (filter (\<lambda>r. movieId r = movieId row) df)
     \<and> average_rating row
         = sum_list (map rating (filter (\<lambda>r. movieId r = movieId row) df))
             / real (length (filter (\<lambda>r. movieId r = movieId row) df))
     \<and> movieId row \<in> movieId ` set df)
   \<and> map movieId (merged_stats df movies_df)
       = filter (\<lambda>k. k \<in> movieId ` set df) (map movieId movies_df)"
  unfolding merged_stats_eq
  by (auto simp: filter_map comp_def add_average_rating_def add_total_views_def)

lemma aggregate_data_raises:
  "merged_stats df movies_df \<noteq> [] \<Longrightarrow> aggregate_data df movies_df = Inl TypeError"
  by (simp add: aggregate_data_eq)

text \<open>
  C2 says that every movie in the output of \<open>aggregate_data\<close> carries the count and the
  mean of its ratings and that a movie without ratings is left out. For the ratings of
  movie 1 alone and the example catalog, the merges do build the one row the claim
  describes (movie 1, two views, mean 4.5, movie 2 left out), but \<open>aggregate_data\<close>
  raises \<^verbatim>\<open>TypeError\<close> in the tag step and returns no summary at all.
\<close>

theorem aggregate_data_no_summary:
  "merged_stats [ex_ratings ! 0, ex_ratings ! 1] ex_movies
     = [\<lparr>movieId = 1, title = ''A'', movie_year = 1990, genres = [''Comedy''],
          total_views = 2, average_rating = 4.5\<rparr>]
   \<and> aggregate_data [ex_ratings ! 0, ex_ratings ! 1] ex_movies = Inl TypeError"
  by (simp add: aggregate_data_def call_one_of_two_def merged_stats_def merge_def
        count_views_def rating_means_def groupby_movieId_def add_average_rating_def
        add_total_views_def ex_ratings_def ex_movies_def)

text \<open>
  C3 says that a movie of the output without tag records gets an empty tag list and that
  the tag step never raises. On the example data the two merges keep movies 1 and 2, and
  movie 2 has no tag record: \<open>get_tags_per_movieId\<close> returns the empty list for it when it
  is given the tags table, but \<open>aggregate_data\<close> calls it without one and raises
  \<^verbatim>\<open>TypeError\<close>.
\<close>

theorem aggregate_data_tags_raises:
  "aggregate_data ex_ratings ex_movies = Inl TypeError
   \<and> get_tags_per_movieId 2 ex_tags = []
   \<and> get_tags_per_movieId 1 ex_tags = [''funny'']"
  by (simp add: aggregate_data_def call_one_of_two_def merged_stats_def merge_def
        count_views_def rating_means_def groupby_movieId_def add_average_rating_def
        add_total_views_def get_tags_per_movieId_def ex_ratings_def ex_movies_def ex_tags_def)


section \<open>The orchestrator: decade and genre filter, failure, the two copies\<close>

lemma match_here_literal: "CHR ''.'' \<notin> set pat \<Longrightarrow> match_here pat s = prefix pat s"
  by (induction pat s rule: match_here.induct) auto

lemma re_search_literal: "CHR ''.'' \<notin> set pat \<Longrightarrow> re_search pat s = sublist pat s"
proof (induction s)
  case Nil
  then show ?case by (simp add: match_here_literal)
next
  case (Cons c cs)
  then show ?case by (simp add: match_here_literal sublist_Cons_right)
qed

lemma re_compile_literal:
  assumes "\<forall>c \<in> set pat. c \<notin> set regex_special"
  shows "re_compile pat = Inr (sublist pat)"
proof -
  have dot: "CHR ''.'' \<in> set regex_special" by (simp add: regex_special_def)
  with assms have nodot: "CHR ''.'' \<notin> set pat" by blast
  have "re_search pat = sublist pat"
    by (intro ext) (simp add: re_search_literal nodot)
  moreover have "list_all (\<lambda>c. c = CHR ''.'' \<or> c \<notin> set regex_special) pat"
    using assms by (simp add: list_all_iff)
  ultimately show ?thesis by (simp add: re_compile_def)
qed

lemma getitem_mask_map:
  "\<forall>r \<in> set df. f r \<noteq> None \<Longrightarrow>
   getitem_mask df (map f df) = Inr (filter (\<lambda>r. f r = Some True) df)"
proof -
  assume a: "\<forall>r \<in> set df. f r \<noteq> None"
  have "map fst (filter (\<lambda>(r, b). b = Some True) (zip xs (map f xs)))
          = filter (\<lambda>r. f r = Some True) xs" for xs
    by (induction xs) auto
  moreover have "\<not> list_ex (\<lambda>b. b = None) (map f df)"
    using a by (auto simp: list_ex_iff)
  ultimately show ?thesis by (simp add: getitem_mask_def)
qed

lemma explode_nonempty:
  "\<forall>m \<in> set X. genres m \<noteq> [] \<Longrightarrow>
   explode X = concat (map (\<lambda>m. map (\<lambda>g. with_genre m (Some g)) (genres m)) X)"
  unfolding explode_def
  by (rule arg_cong [where f = concat], rule map_cong) (auto split: list.splits)

lemma genres_with_genre: "genres (with_genre m g) = g"
  by (simp add: with_genre_def)

lemma filter_df_of_literal:
  assumes lit: "\<forall>c \<in> set genre. c \<notin> set regex_special"
      and ne: "\<forall>m \<in> set dataset.
                 y div 10 * 10 \<le> movie_year m \<and> movie_year m \<le> y div 10 * 10 + 9 \<longrightarrow> genres m \<noteq> []"
  shows "filter_df_of genre y dataset =
           Inr (concat (map (\<lambda>m. map (\<lambda>g. with_genre m (Some g)) (filter (sublist genre) (genres m)))
                  (filter (\<lambda>m. y div 10 * 10 \<le> movie_year m \<and> movie_year m \<le> y div 10 * 10 + 9)
                     dataset)))"
proof -
  let ?X = "filter (\<lambda>m. y div 10 * 10 \<le> movie_year m \<and> movie_year m \<le> y div 10 * 10 + 9) dataset"
  let ?E = "concat (map (\<lambda>m. map (\<lambda>g. with_genre m (Some g)) (genres m)) ?X)"
  have X: "filter_production_date dataset (y div 10 * 10) (y div 10 * 10 + 9) = ?X"
    by (simp add: filter_production_date_def)
  have E: "explode ?X = ?E"
    using ne by (intro explode_nonempty) simp
  have some: "\<forall>r \<in> set ?E. map_option (sublist genre) (genres r) \<noteq> None"
    by (auto simp: genres_with_genre)
  have keep: "filter (\<lambda>r. map_option (sublist genre) (genres r) = Some True) ?E
                = concat (map (\<lambda>m. map (\<lambda>g. with_genre m (Some g)) (filter (sublist genre) (genres m))) ?X)"
    by (simp add: filter_concat comp_def filter_map genres_with_genre)
  have "filter_df_of genre y dataset
          = getitem_mask ?E (map (\<lambda>r. map_option (sublist genre) (genres r)) ?E)"
    by (simp add: filter_df_of_def Let_def X E str_contains_def re_compile_literal [OF lit] comp_def)
  also have "\<dots> = Inr (filter (\<lambda>r. map_option (sublist genre) (genres r) = Some True) ?E)"
    using some by (rule getitem_mask_map)
  finally show ?thesis by (simp only: keep)
qed

lemma comedy_literal: "\<forall>c \<in> set ''Comedy''. c \<notin> set regex_special"
  by (simp add: regex_special_def)

text \<open>
  C4, as amended: for every genre string \<open>g\<close> without regular-expression metacharacters,
  every production year \<open>y\<close> and every catalog in which each movie of the decade has at
  least one genre, the \<open>filter_df\<close> that \<open>find_closest_match_ut\<close> computes consists exactly
  of the catalog rows, expanded to one row per genre and in catalog order, whose
  \<open>movie_year\<close> lies in \<open>[y // 10 * 10, y // 10 * 10 + 9]\<close> and whose genre contains \<open>g\<close> as
  a substring; so a genre \<open>Romantic Comedy\<close> is kept for the requested genre \<open>Comedy\<close>.
\<close>

theorem filter_df_of_decade_genre:
  assumes "\<forall>c \<in> set genre. c \<notin> set regex_special"
      and "\<forall>m \<in> set dataset.
             y div 10 * 10 \<le> movie_year m \<and> movie_year m \<le> y div 10 * 10 + 9 \<longrightarrow> genres m \<noteq> []"
  shows "filter_df_of genre y dataset =
           Inr (concat (map (\<lambda>m. map (\<lambda>g. with_genre m (Some g)) (filter (sublist genre) (genres m)))
                  (filter (\<lambda>m. y div 10 * 10 \<le> movie_year m \<and> movie_year m \<le> y div 10 * 10 + 9)
                     dataset)))"
  using assms by (rule filter_df_of_literal)

theorem filter_df_of_decade_genre_witness:
  "filter_df_of ''Comedy'' 1995 ex_movies_mixed
     = Inr [\<lparr>movieId = 3, title = ''C'', movie_year = 1999, genres = Some ''Romantic Comedy''\<rparr>]
   \<and> filter_df_of ''Comedy'' 1990 ex_movies
     = Inr [\<lparr>movieId = 1, title = ''A'', movie_year = 1990, genres = Some ''Comedy''\<rparr>]"
proof -
  have a: "\<forall>m \<in> set ex_movies_mixed.
             1995 div 10 * 10 \<le> movie_year m \<and> movie_year m \<le> 1995 div 10 * 10 + 9 \<longrightarrow> genres m \<noteq> []"
    by (simp add: ex_movies_mixed_def)
  have b: "\<forall>m \<in> set ex_movies.
             1990 div 10 * 10 \<le> movie_year m \<and> movie_year m \<le> 1990 div 10 * 10 + 9 \<longrightarrow> genres m \<noteq> []"
    by (simp add: ex_movies_def)
  show ?thesis
    using filter_df_of_decade_genre [OF comedy_literal a] filter_df_of_decade_genre [OF comedy_literal b]
    by (simp add: ex_movies_mixed_def ex_movies_def with_genre_def sublist_Cons_right)
qed

text \<open>
  C4 as stated fails in two ways. The requested genre is compiled as a regular expression:
  for \<open>g = "."\<close> both rows of the example catalog are kept, though neither genre contains a
  full stop. And a movie of the decade with an empty genre list explodes to a NaN genre,
  the mask holds a NaN, and the selection raises \<^verbatim>\<open>ValueError\<close>, here for the 2000s
  although movie 5 of that decade is a comedy.
\<close>

theorem filter_df_of_counterexample:
  "filter_df_of ''.'' 1990 ex_movies
     = Inr [\<lparr>movieId = 1, title = ''A'', movie_year = 1990, genres = Some ''Comedy''\<rparr>,
            \<lparr>movieId = 2, title = ''B'', movie_year = 1991, genres = Some ''Drama''\<rparr>]
   \<and> \<not> sublist ''.'' ''Comedy'' \<and> \<not> sublist ''.'' ''Drama''
   \<and> filter_df_of ''Comedy'' 2000 ex_movies_mixed = Inl ValueError"
  by (simp add: filter_df_of_def filter_production_date_def explode_def with_genre_def
      str_contains_def re_compile_def regex_special_def getitem_mask_def
      ex_movies_def ex_movies_mixed_def sublist_Cons_right)

text \<open>
  Neither copy of the orchestrator ever returns: whatever \<open>filter_df\<close> is, the call
  \<^verbatim>\<open>aggregate_data(filter_df)\<close> raises.
\<close>

lemma find_closest_match_ut_never_returns:
  "find_closest_match_ut srt genre y dataset \<noteq> Inr res"
  "inisight_find_closest_match_ut srt genre y dataset \<noteq> Inr res"
  by (simp_all add: find_closest_match_ut_def inisight_find_closest_match_ut_def
        call_one_of_two_def split: sum.splits)

text \<open>
  C1 says that on the end-to-end example \<open>find_closest_match("Comedy", 1990, dataset)\<close>
  filters to movie 1 and returns a summary with \<open>total_views = 2\<close>, \<open>average_rating = 4.5\<close>
  and \<open>tags = ["funny"]\<close>. The code does filter to movie 1, and then raises
  \<^verbatim>\<open>TypeError\<close> at \<^verbatim>\<open>aggregate_data(filter_df)\<close>; no summary is returned.
\<close>

theorem find_closest_match_ut_example_raises:
  "filter_df_of ''Comedy'' 1990 ex_movies
     = Inr [\<lparr>movieId = 1, title = ''A'', movie_year = 1990, genres = Some ''Comedy''\<rparr>]
   \<and> find_closest_match_ut stable_sort_desc ''Comedy'' 1990 ex_movies = Inl TypeError"
  by (simp add: find_closest_match_ut_def call_one_of_two_def filter_df_of_def
      filter_production_date_def explode_def with_genre_def str_contains_def re_compile_def
      regex_special_def getitem_mask_def ex_movies_def)

text \<open>
  C10: the orchestrator of \<^verbatim>\<open>src/utils/inisight.py\<close> and the orchestrator of
  \<^verbatim>\<open>src/utils/utils.py\<close> are extensionally equal: for every genre, production year and
  dataset (and every sort behind \<^verbatim>\<open>sort_values\<close>) they give the same result, failures
  included.
\<close>

theorem orchestrators_equal:
  "inisight_find_closest_match_ut srt genre prod_year dataset
     = find_closest_match_ut srt genre prod_year dataset"
  by (simp add: inisight_find_closest_match_ut_def find_closest_match_ut_def)

theorem orchestrators_equal_witness:
  "inisight_find_closest_match_ut stable_sort_desc ''Comedy'' 2000 ex_movies_mixed = Inl ValueError
   \<and> find_closest_match_ut stable_sort_desc ''Comedy'' 2000 ex_movies_mixed = Inl ValueError
   \<and> inisight_find_closest_match_ut stable_sort_desc ''Comedy'' 1995 ex_movies_mixed = Inl TypeError
   \<and> find_closest_match_ut stable_sort_desc ''Comedy'' 1995 ex_movies_mixed = Inl TypeError"
  using orchestrators_equal [of stable_sort_desc "''Comedy''" 2000 ex_movies_mixed]
    orchestrators_equal [of stable_sort_desc "''Comedy''" 1995 ex_movies_mixed]
  by (simp add: find_closest_match_ut_def call_one_of_two_def filter_df_of_def
      filter_production_date_def explode_def with_genre_def str_contains_def re_compile_def
      regex_special_def getitem_mask_def ex_movies_mixed_def)

end
